theory Spec2Isabelle
  imports Complex_Main "HOL-Library.AList"
begin

section \<open>JavaScript values\<close>

text \<open>
  The dispatcher of \<^verbatim>\<open>createMiniAppsEventEmitter.ts\<close> handles values of type
  \<^verbatim>\<open>unknown\<close>. A number is a finite value, NaN or one of the two infinities; an object
  is the list of its own properties in enumeration order.
\<close>

datatype jsnumber = Fin real | NaN | PosInf | NegInf

datatype jsval =
    JUndefined
  | JNull
  | JBool bool
  | JNum jsnumber
  | JStr string
  | JObj "(string \<times> jsval) list"
  | JArr "jsval list"

text \<open>
  The truth value of a value in a condition (\<^verbatim>\<open>data ? ... : ...\<close>): undefined, null, false,
  zero, NaN and the empty string are falsy, every object and array is truthy.
\<close>

fun truthy :: "jsval \<Rightarrow> bool" where
  "truthy JUndefined = False"
| "truthy JNull = False"
| "truthy (JBool b) = b"
| "truthy (JNum n) = (n \<noteq> Fin 0 \<and> n \<noteq> NaN)"
| "truthy (JStr s) = (s \<noteq> [])"
| "truthy (JObj fs) = True"
| "truthy (JArr xs) = True"

text \<open>Reading a property of an object: a missing property reads as undefined.\<close>

definition property :: "(string \<times> jsval) list \<Rightarrow> string \<Rightarrow> jsval" where
  "property fs k = (case map_of fs k of None \<Rightarrow> JUndefined | Some v \<Rightarrow> v)"

text \<open>\<^verbatim>\<open>value === null || value === undefined\<close>, also the test of \<^verbatim>\<open>value ?? {}\<close>.\<close>

definition nullish :: "jsval \<Rightarrow> bool" where
  "nullish v = (v = JNull \<or> v = JUndefined)"

datatype error = ValidationError | MalformedMessageError | TypeError

type_synonym parser = "jsval \<Rightarrow> error + jsval"

section \<open>Schema and parser layer\<close>

text \<open>
  Modelled from the spec: the primitive parser \<^verbatim>\<open>string()\<close> of \<^verbatim>\<open>@/parsing/parsers\<close> is
  not among the sources. Section 4.1 of the specification: it is a pure function that
  fails with a ValidationError if the value cannot be coerced to a string. A string is
  returned as it is. The specification does not say which other values can be coerced,
  so that is a parameter: \<open>coerce v\<close> is the string a value \<open>v\<close> that is not a string is
  coerced to, and \<open>None\<close> where it cannot be coerced.
\<close>

definition string_parse :: "(jsval \<Rightarrow> string option) \<Rightarrow> parser" where
  "string_parse coerce v =
     (case v of
        JStr s \<Rightarrow> Inr (JStr s)
      | _ \<Rightarrow> (case coerce v of None \<Rightarrow> Inl ValidationError | Some s \<Rightarrow> Inr (JStr s)))"

text \<open>
  Modelled from the spec: the primitive parsers \<^verbatim>\<open>number()\<close> and \<^verbatim>\<open>boolean()\<close> of
  \<^verbatim>\<open>@/parsing/parsers\<close> are not among the sources. Section 4.1: each fails with a
  ValidationError if the value cannot be coerced to its type, and the numeric parser
  rejects non-finite and non-numeric input. A finite number and a boolean are returned
  as they are.
\<close>

definition number_parse :: parser where
  "number_parse v = (case v of JNum (Fin r) \<Rightarrow> Inr (JNum (Fin r)) | _ \<Rightarrow> Inl ValidationError)"

definition boolean_parse :: parser where
  "boolean_parse v = (case v of JBool b \<Rightarrow> Inr (JBool b) | _ \<Rightarrow> Inl ValidationError)"

text \<open>
  Modelled from the spec: \<^verbatim>\<open>.optional()\<close> of the absent parser generator. Section 4.1:
  the optional-capable variant accepts null and undefined and returns a sentinel absent
  value (undefined) instead of failing.
\<close>

definition optional :: "parser \<Rightarrow> parser" where
  "optional p v = (if nullish v then Inr JUndefined else p v)"

text \<open>
  Modelled from the spec: the record parser \<^verbatim>\<open>json(schema)\<close> of \<^verbatim>\<open>@/parsing/parsers/json.js\<close>
  is not among the sources. Section 4.1: it composes named field parsers, fails if the
  input is not object-shaped or if a field parser fails, and ignores unknown extra
  fields. Each field parser receives the value of its field, undefined when the field is
  missing; the record holds the schema's fields in the schema's order.
\<close>

fun parse_fields :: "(string \<times> parser) list \<Rightarrow> (string \<times> jsval) list \<Rightarrow> error + (string \<times> jsval) list" where
  "parse_fields [] obj = Inr []"
| "parse_fields ((k, p) # schema) obj =
     (case p (property obj k) of
        Inl e \<Rightarrow> Inl e
      | Inr v \<Rightarrow> (case parse_fields schema obj of
                   Inl e \<Rightarrow> Inl e
                 | Inr r \<Rightarrow> Inr ((k, v) # r)))"

definition json :: "(string \<times> parser) list \<Rightarrow> parser" where
  "json schema v =
     (case v of
        JObj obj \<Rightarrow> (case parse_fields schema obj of Inl e \<Rightarrow> Inl e | Inr r \<Rightarrow> Inr (JObj r))
      | _ \<Rightarrow> Inl ValidationError)"

text \<open>
  Modelled from the spec: \<^verbatim>\<open>toRecord\<close> of \<^verbatim>\<open>@/parsing/toRecord.js\<close> is not among the
  sources; it returns the properties of an object-shaped value and fails on any other.
\<close>

definition toRecord :: "jsval \<Rightarrow> error + (string \<times> jsval) list" where
  "toRecord v = (case v of JObj obj \<Rightarrow> Inr obj | _ \<Rightarrow> Inl ValidationError)"

section \<open>The window and the collaborators\<close>

type_synonym winref = nat

text \<open>The part of the global \<^verbatim>\<open>window\<close> the code reads when an event is handled.\<close>

record window =
  innerWidth :: real
  innerHeight :: real
  parent :: winref

record MiniAppsMessage =
  eventType :: string
  eventData :: jsval

text \<open>
  What the module imports, is not among the sources and is not fixed by the
  specification is a parameter of the model: \<^verbatim>\<open>parseMessage\<close> (the envelope decoder of
  section 4.2, which throws on a malformed message), the \<^verbatim>\<open>parse\<close> of the colour parser
  \<^verbatim>\<open>rgb()\<close>, and what \<^verbatim>\<open>string()\<close> makes of a value that is not a string.
\<close>

record collaborators =
  parseMessage :: "jsval \<Rightarrow> error + MiniAppsMessage"
  rgb :: parser
  coerce_string :: "jsval \<Rightarrow> string option"

section \<open>The parsers of the Mini Apps events\<close>

definition clipboard_text_received :: "collaborators \<Rightarrow> parser" where
  "clipboard_text_received C =
     json [(''req_id'', string_parse (coerce_string C)),
           (''data'', \<lambda>value. if value = JNull then Inr value
                              else optional (string_parse (coerce_string C)) value)]"

definition custom_method_invoked :: "collaborators \<Rightarrow> parser" where
  "custom_method_invoked C =
     json [(''req_id'', string_parse (coerce_string C)),
           (''result'', \<lambda>value. Inr value),
           (''error'', optional (string_parse (coerce_string C)))]"

definition invoice_closed :: "collaborators \<Rightarrow> parser" where
  "invoice_closed C =
     json [(''slug'', string_parse (coerce_string C)),
           (''status'', string_parse (coerce_string C))]"

definition phone_requested :: "collaborators \<Rightarrow> parser" where
  "phone_requested C = json [(''status'', string_parse (coerce_string C))]"

definition popup_closed :: "collaborators \<Rightarrow> parser" where
  "popup_closed C v =
     json [(''button_id'', \<lambda>value. if nullish value then Inr JUndefined
                                   else string_parse (coerce_string C) value)]
       (if nullish v then JObj [] else v)"

definition qr_text_received :: "collaborators \<Rightarrow> parser" where
  "qr_text_received C = json [(''data'', optional (string_parse (coerce_string C)))]"

text \<open>
  The reducer of \<^verbatim>\<open>theme_changed\<close>: \<^verbatim>\<open>acc[k] = parser.parse(v)\<close> for each entry, stopping
  at the first entry the parser rejects.
\<close>

fun reduce_entries :: "parser \<Rightarrow> (string \<times> jsval) list \<Rightarrow> (string \<times> jsval) list \<Rightarrow> error + (string \<times> jsval) list" where
  "reduce_entries p acc [] = Inr acc"
| "reduce_entries p acc ((k, v) # es) =
     (case p v of
        Inl e \<Rightarrow> Inl e
      | Inr c \<Rightarrow> reduce_entries p (AList.update k c acc) es)"

definition theme_changed :: "collaborators \<Rightarrow> parser" where
  "theme_changed C =
     json [(''theme_params'', \<lambda>value.
        (case toRecord value of
           Inl e \<Rightarrow> Inl e
         | Inr entries \<Rightarrow>
             (case reduce_entries (optional (rgb C)) [] entries of
                Inl e \<Rightarrow> Inl e
              | Inr acc \<Rightarrow> Inr (JObj acc))))]"

definition viewport_changed :: "window \<Rightarrow> parser" where
  "viewport_changed w =
     json [(''height'', number_parse),
           (''width'', \<lambda>value. if nullish value then Inr (JNum (Fin (innerWidth w)))
                               else number_parse value),
           (''is_state_stable'', boolean_parse),
           (''is_expanded'', boolean_parse)]"

definition write_access_requested :: "collaborators \<Rightarrow> parser" where
  "write_access_requested C = json [(''status'', string_parse (coerce_string C))]"

text \<open>The own properties of the \<^verbatim>\<open>parsers\<close> object.\<close>

definition parsers :: "collaborators \<Rightarrow> window \<Rightarrow> (string \<times> parser) list" where
  "parsers C w =
     [(''clipboard_text_received'', clipboard_text_received C),
      (''custom_method_invoked'', custom_method_invoked C),
      (''invoice_closed'', invoice_closed C),
      (''phone_requested'', phone_requested C),
      (''popup_closed'', popup_closed C),
      (''qr_text_received'', qr_text_received C),
      (''theme_changed'', theme_changed C),
      (''viewport_changed'', viewport_changed w),
      (''write_access_requested'', write_access_requested C)]"

text \<open>
  \<^verbatim>\<open>parsers\<close> is an object literal, so \<^verbatim>\<open>parsers[eventType]\<close> also finds the properties
  it inherits from \<^verbatim>\<open>Object.prototype\<close>. Such a value is truthy and has no \<^verbatim>\<open>parse\<close>
  method: \<^verbatim>\<open>parser.parse(eventData)\<close> throws a TypeError there.
\<close>

definition object_prototype_keys :: "string list" where
  "object_prototype_keys =
     [''constructor'', ''hasOwnProperty'', ''isPrototypeOf'', ''propertyIsEnumerable'',
      ''toLocaleString'', ''toString'', ''valueOf'', ''__proto__'',
      ''__defineGetter__'', ''__defineSetter__'', ''__lookupGetter__'', ''__lookupSetter__'']"

text \<open>\<^verbatim>\<open>parser ? parser.parse(eventData) : eventData\<close>, with the parser looked up by name.\<close>

definition parse_event_data :: "collaborators \<Rightarrow> window \<Rightarrow> string \<Rightarrow> jsval \<Rightarrow> error + jsval" where
  "parse_event_data C w t d =
     (case map_of (parsers C w) t of
        Some p \<Rightarrow> p d
      | None \<Rightarrow> if t \<in> set object_prototype_keys then Inl TypeError else Inr d)"

section \<open>Event emitter core\<close>

text \<open>
  Modelled from the spec: the class \<^verbatim>\<open>EventEmitter\<close> of
  \<^verbatim>\<open>@/events/event-emitter/EventEmitter.js\<close> is not among the sources. Section 4.3:
  \<^verbatim>\<open>on\<close> registers a listener for a name and does not deduplicate; \<^verbatim>\<open>off\<close> removes the
  first matching registration and is a no-op if there is none; \<^verbatim>\<open>emit\<close> invokes the
  listeners registered for the name in registration order, and the catch-all stream
  receives every emitted event; \<^verbatim>\<open>count\<close> is the total of the registrations of the named
  and the catch-all streams; \<^verbatim>\<open>clear\<close> removes all registrations. The specification
  does not order the named listeners against the catch-all stream within one
  \<^verbatim>\<open>emit\<close>; here the named listeners run first.
\<close>

record ('l, 's) EventEmitter =
  listeners :: "(string \<times> 'l) list"
  subscribeListeners :: "'s list"

definition EventEmitter_new :: "('l, 's) EventEmitter" where
  "EventEmitter_new = \<lparr>listeners = [], subscribeListeners = []\<rparr>"

definition EventEmitter_on :: "('l, 's) EventEmitter \<Rightarrow> string \<Rightarrow> 'l \<Rightarrow> ('l, 's) EventEmitter" where
  "EventEmitter_on e name l = e\<lparr>listeners := listeners e @ [(name, l)]\<rparr>"

definition EventEmitter_off :: "('l, 's) EventEmitter \<Rightarrow> string \<Rightarrow> 'l \<Rightarrow> ('l, 's) EventEmitter" where
  "EventEmitter_off e name l = e\<lparr>listeners := remove1 (name, l) (listeners e)\<rparr>"

definition EventEmitter_subscribe :: "('l, 's) EventEmitter \<Rightarrow> 's \<Rightarrow> ('l, 's) EventEmitter" where
  "EventEmitter_subscribe e s = e\<lparr>subscribeListeners := subscribeListeners e @ [s]\<rparr>"

definition EventEmitter_count :: "('l, 's) EventEmitter \<Rightarrow> nat" where
  "EventEmitter_count e = length (listeners e) + length (subscribeListeners e)"

definition EventEmitter_clear :: "('l, 's) EventEmitter \<Rightarrow> ('l, 's) EventEmitter" where
  "EventEmitter_clear e = e\<lparr>listeners := [], subscribeListeners := []\<rparr>"

text \<open>
  One call of a listener made by \<^verbatim>\<open>emit(name, ...args)\<close>: a named listener receives the
  arguments, a catch-all listener receives the event \<^verbatim>\<open>{event: name, args}\<close>.
\<close>

datatype ('l, 's) invocation = Named 'l "jsval list" | CatchAll 's string "jsval list"

definition EventEmitter_emit :: "('l, 's) EventEmitter \<Rightarrow> string \<Rightarrow> jsval list \<Rightarrow> ('l, 's) invocation list" where
  "EventEmitter_emit e name args =
     map (\<lambda>l. Named l args) (map snd (filter (\<lambda>r. fst r = name) (listeners e)))
     @ map (\<lambda>s. CatchAll s name args) (subscribeListeners e)"

section \<open>The dispatcher\<close>

text \<open>
  A listener of the application is a function reference. The only catch-all listener of
  the main emitter is the closure that forwards every event to the sub emitter. The two
  listeners the module puts on the window are its resize and its message closure.
\<close>

type_synonym fn = nat

datatype bridge = Bridge

datatype handler = ResizeHandler | MessageHandler

text \<open>
  The state of one \<^verbatim>\<open>createMiniAppsEventEmitter()\<close>: its two emitters, the listeners it
  has on the window, whether the global event handlers of \<^verbatim>\<open>defineEventHandlers\<close> are
  installed, and three histories: the calls of \<^verbatim>\<open>mainEmitter.emit\<close>, the calls of the
  application's listeners with their arguments, and the calls of \<^verbatim>\<open>logger.error\<close>.
\<close>

record state =
  mainEmitter :: "(fn, bridge) EventEmitter"
  subEmitter :: "(fn, fn) EventEmitter"
  windowListeners :: "(string \<times> handler) set"
  eventHandlers :: bool
  emitted :: "(string \<times> jsval list) list"
  calls :: "(fn \<times> jsval list) list"
  logged :: "(string \<times> MiniAppsMessage \<times> error) list"

text \<open>The calls of the application's listeners made by \<^verbatim>\<open>subEmitter.emit\<close>.\<close>

fun sub_call :: "(fn, fn) invocation \<Rightarrow> fn \<times> jsval list" where
  "sub_call (Named f args) = (f, args)"
| "sub_call (CatchAll f name args) = (f, [JObj [(''event'', JStr name), (''args'', JArr args)]])"

text \<open>
  The calls made by one invocation of \<^verbatim>\<open>mainEmitter.emit\<close>. The catch-all closure is
  \<^verbatim>\<open>event => subEmitter.emit('event', {name: event.event, payload: event.args[0]})\<close>.
\<close>

fun main_call :: "state \<Rightarrow> (fn, bridge) invocation \<Rightarrow> (fn \<times> jsval list) list" where
  "main_call st (Named f args) = [(f, args)]"
| "main_call st (CatchAll Bridge name args) =
     map sub_call
       (EventEmitter_emit (subEmitter st) ''event''
          [JObj [(''name'', JStr name),
                 (''payload'', (case args of [] \<Rightarrow> JUndefined | a # _ \<Rightarrow> a))]])"

definition mainEmitter_emit :: "state \<Rightarrow> string \<Rightarrow> jsval list \<Rightarrow> state" where
  "mainEmitter_emit st name args =
     st\<lparr>emitted := emitted st @ [(name, args)],
        calls := calls st @ concat (map (main_call st) (EventEmitter_emit (mainEmitter st) name args))\<rparr>"

text \<open>
  Modelled from the spec: \<^verbatim>\<open>onWindow\<close> of \<^verbatim>\<open>@/events/onWindow.js\<close> is not among the
  sources. Section 6: the module adds and removes a listener of a type on the global
  window. \<^verbatim>\<open>onWindow\<close> adds the listener and returns the function that removes it,
  \<open>offWindow\<close> here; a listener is on the window at most once, and removing one that is
  not there does nothing.
\<close>

definition onWindow :: "string \<Rightarrow> handler \<Rightarrow> state \<Rightarrow> state" where
  "onWindow t h st = st\<lparr>windowListeners := insert (t, h) (windowListeners st)\<rparr>"

definition offWindow :: "string \<Rightarrow> handler \<Rightarrow> state \<Rightarrow> state" where
  "offWindow t h st = st\<lparr>windowListeners := windowListeners st - {(t, h)}\<rparr>"

text \<open>
  \<^verbatim>\<open>defineEventHandlers\<close> and \<^verbatim>\<open>cleanupEventHandlers\<close> are not among the sources and the
  specification does not describe them; the state records whether the first has run
  without the second after it.
\<close>

definition defineEventHandlers :: "state \<Rightarrow> state" where
  "defineEventHandlers st = st\<lparr>eventHandlers := True\<rparr>"

definition cleanupEventHandlers :: "state \<Rightarrow> state" where
  "cleanupEventHandlers st = st\<lparr>eventHandlers := False\<rparr>"

text \<open>
  Modelled from the spec: \<^verbatim>\<open>logger\<close> of \<^verbatim>\<open>@/debug/debug.js\<close> is not among the sources.
  Section 7: a schema-validation failure is reported to an external logging
  collaborator. Each call of \<^verbatim>\<open>logger.error\<close> is recorded with its three arguments.
\<close>

definition logger_error :: "string \<Rightarrow> MiniAppsMessage \<Rightarrow> error \<Rightarrow> state \<Rightarrow> state" where
  "logger_error text message cause st = st\<lparr>logged := logged st @ [(text, message, cause)]\<rparr>"

definition error_text :: "string \<Rightarrow> string" where
  "error_text t =
     ''An error occurred processing the \"'' @ t
     @ ''\" event from the Telegram application. Please, file an issue here: https://github.com/Telegram-Mini-Apps/tma.js/issues/new/choose''"

text \<open>The listener of the window's resize event.\<close>

definition on_resize :: "window \<Rightarrow> state \<Rightarrow> state" where
  "on_resize w st =
     mainEmitter_emit st ''viewport_changed''
       [JObj [(''width'', JNum (Fin (innerWidth w))),
              (''height'', JNum (Fin (innerHeight w))),
              (''is_state_stable'', JBool True),
              (''is_expanded'', JBool True)]]"

record message_event =
  source :: winref
  data :: jsval

text \<open>
  The listener of the window's message event. Both \<^verbatim>\<open>try\<close> blocks catch every throw:
  the first returns, the second reports to the logger.
\<close>

definition on_message :: "collaborators \<Rightarrow> window \<Rightarrow> state \<Rightarrow> message_event \<Rightarrow> state" where
  "on_message C w st event =
     (if source event \<noteq> parent w then st
      else case parseMessage C (data event) of
        Inl _ \<Rightarrow> st
      | Inr message \<Rightarrow>
          (case parse_event_data C w (eventType message) (eventData message) of
             Inl cause \<Rightarrow> logger_error (error_text (eventType message)) message cause st
           | Inr d \<Rightarrow> mainEmitter_emit st (eventType message) (if truthy d then [d] else [])))"

text \<open>
  Modelled from the spec: \<^verbatim>\<open>createCleanup\<close> of \<^verbatim>\<open>@/misc/createCleanup.js\<close> is not among
  the sources. Section 4.4: disposal removes both window listeners and clears the
  emitters. The cleanup function runs the functions it was given, in their order.
\<close>

definition dispose :: "state \<Rightarrow> state" where
  "dispose st =
     (let st1 = cleanupEventHandlers st;
          st2 = offWindow ''resize'' ResizeHandler st1;
          st3 = offWindow ''message'' MessageHandler st2;
          st4 = st3\<lparr>subEmitter := EventEmitter_clear (subEmitter st3)\<rparr>
      in st4\<lparr>mainEmitter := EventEmitter_clear (mainEmitter st4)\<rparr>)"

definition createMiniAppsEventEmitter :: state where
  "createMiniAppsEventEmitter =
     onWindow ''message'' MessageHandler
       (onWindow ''resize'' ResizeHandler
          (defineEventHandlers
             \<lparr>mainEmitter = EventEmitter_subscribe EventEmitter_new Bridge,
              subEmitter = EventEmitter_new,
              windowListeners = {},
              eventHandlers = False,
              emitted = [], calls = [], logged = []\<rparr>))"

text \<open>The operations of the returned emitter. \<^verbatim>\<open>off\<close> is \<^verbatim>\<open>mainEmitter.on.bind(mainEmitter)\<close>.\<close>

definition emitter_on :: "state \<Rightarrow> string \<Rightarrow> fn \<Rightarrow> state" where
  "emitter_on st name l = st\<lparr>mainEmitter := EventEmitter_on (mainEmitter st) name l\<rparr>"

definition emitter_off :: "state \<Rightarrow> string \<Rightarrow> fn \<Rightarrow> state" where
  "emitter_off st name l = st\<lparr>mainEmitter := EventEmitter_on (mainEmitter st) name l\<rparr>"

definition emitter_subscribe :: "state \<Rightarrow> fn \<Rightarrow> state" where
  "emitter_subscribe st l = st\<lparr>subEmitter := EventEmitter_on (subEmitter st) ''event'' l\<rparr>"

definition emitter_unsubscribe :: "state \<Rightarrow> fn \<Rightarrow> state" where
  "emitter_unsubscribe st l = st\<lparr>subEmitter := EventEmitter_off (subEmitter st) ''event'' l\<rparr>"

definition emitter_count :: "state \<Rightarrow> nat" where
  "emitter_count st = EventEmitter_count (mainEmitter st) + EventEmitter_count (subEmitter st)"

text \<open>
  An event of the window reaches the listeners the module has on the window for its
  type, with the window as it is at that time.
\<close>

datatype window_event = Resize | Message message_event

definition dispatchEvent :: "collaborators \<Rightarrow> window \<Rightarrow> state \<Rightarrow> window_event \<Rightarrow> state" where
  "dispatchEvent C w st ev =
     (case ev of
        Resize \<Rightarrow> if (''resize'', ResizeHandler) \<in> windowListeners st then on_resize w st else st
      | Message m \<Rightarrow>
          if (''message'', MessageHandler) \<in> windowListeners st then on_message C w st m else st)"

text \<open>What can happen to an emitter after its creation, and a run of such steps.\<close>

datatype action =
    On string fn
  | Off string fn
  | Subscribe fn
  | Unsubscribe fn
  | Window window window_event
  | Dispose

fun step :: "collaborators \<Rightarrow> state \<Rightarrow> action \<Rightarrow> state" where
  "step C st (On name l) = emitter_on st name l"
| "step C st (Off name l) = emitter_off st name l"
| "step C st (Subscribe l) = emitter_subscribe st l"
| "step C st (Unsubscribe l) = emitter_unsubscribe st l"
| "step C st (Window w ev) = dispatchEvent C w st ev"
| "step C st Dispose = dispose st"

definition run :: "collaborators \<Rightarrow> state \<Rightarrow> action list \<Rightarrow> state" where
  "run C st as = foldl (step C) st as"

text \<open>The registrations made through the returned emitter.\<close>

definition user_registrations :: "state \<Rightarrow> nat" where
  "user_registrations st = length (listeners (mainEmitter st)) + length (listeners (subEmitter st))"

text \<open>
  Concrete collaborators, for evaluating the dispatcher on the scenarios of the
  specification. The envelope decoder reads \<^verbatim>\<open>eventType\<close> and \<^verbatim>\<open>eventData\<close> off a
  structured object. There are two readings of \<^verbatim>\<open>string()\<close>: one that coerces nothing
  but strings, and one that coerces a number as \<^verbatim>\<open>String(5) = "5"\<close> does, here for the
  non-negative integers in decimal.
\<close>

definition no_coercion :: "jsval \<Rightarrow> string option" where
  "no_coercion v = None"

fun decimal :: "nat \<Rightarrow> string" where
  "decimal n =
     (if n < 10 then [''0123456789'' ! n]
      else decimal (n div 10) @ [''0123456789'' ! (n mod 10)])"

declare decimal.simps [simp del]

definition number_coercion :: "jsval \<Rightarrow> string option" where
  "number_coercion v =
     (case v of
        JNum (Fin r) \<Rightarrow>
          if 0 \<le> r \<and> r = of_nat (nat \<lfloor>r\<rfloor>) then Some (decimal (nat \<lfloor>r\<rfloor>)) else None
      | _ \<Rightarrow> None)"

definition structured_message :: "jsval \<Rightarrow> error + MiniAppsMessage" where
  "structured_message v =
     (case v of
        JObj fs \<Rightarrow>
          (case property fs ''eventType'' of
             JStr t \<Rightarrow> Inr \<lparr>eventType = t, eventData = property fs ''eventData''\<rparr>
           | _ \<Rightarrow> Inl MalformedMessageError)
      | _ \<Rightarrow> Inl MalformedMessageError)"

definition example_collaborators :: collaborators where
  "example_collaborators =
     \<lparr>parseMessage = structured_message, rgb = string_parse no_coercion,
      coerce_string = no_coercion\<rparr>"

definition coercing_collaborators :: collaborators where
  "coercing_collaborators =
     \<lparr>parseMessage = structured_message, rgb = string_parse no_coercion,
      coerce_string = number_coercion\<rparr>"

definition example_window :: window where
  "example_window = \<lparr>innerWidth = 375, innerHeight = 812, parent = 1\<rparr>"

section \<open>Properties of the building blocks\<close>

lemmas emitter_defs = EventEmitter_new_def EventEmitter_on_def EventEmitter_off_def
  EventEmitter_subscribe_def EventEmitter_count_def EventEmitter_clear_def EventEmitter_emit_def

lemmas create_defs = createMiniAppsEventEmitter_def onWindow_def defineEventHandlers_def

lemmas example_defs = example_collaborators_def example_window_def structured_message_def
  property_def no_coercion_def

text \<open>An emission extends the two histories and leaves everything else as it is.\<close>

lemma mainEmitter_emit_fields [simp]:
  "emitted (mainEmitter_emit st name args) = emitted st @ [(name, args)]"
  "mainEmitter (mainEmitter_emit st name args) = mainEmitter st"
  "subEmitter (mainEmitter_emit st name args) = subEmitter st"
  "windowListeners (mainEmitter_emit st name args) = windowListeners st"
  "eventHandlers (mainEmitter_emit st name args) = eventHandlers st"
  "logged (mainEmitter_emit st name args) = logged st"
  by (simp_all add: mainEmitter_emit_def)

text \<open>What the logger has recorded has no influence on what is emitted or called.\<close>

lemma main_call_logged [simp]: "main_call (st\<lparr>logged := x\<rparr>) = main_call st"
proof
  fix i
  show "main_call (st\<lparr>logged := x\<rparr>) i = main_call st i"
    by (cases "(st, i)" rule: main_call.cases) simp_all
qed

lemma mainEmitter_emit_logged:
  "mainEmitter_emit (st\<lparr>logged := x\<rparr>) name args = (mainEmitter_emit st name args)\<lparr>logged := x\<rparr>"
  by (simp add: mainEmitter_emit_def)

lemma on_message_logged_emitted:
  "emitted (on_message C w (st\<lparr>logged := x\<rparr>) event) = emitted (on_message C w st event)"
  by (simp add: on_message_def logger_error_def mainEmitter_emit_logged split: sum.splits)

lemma on_message_logged_calls:
  "calls (on_message C w (st\<lparr>logged := x\<rparr>) event) = calls (on_message C w st event)"
  by (simp add: on_message_def logger_error_def mainEmitter_emit_logged split: sum.splits)

text \<open>No event of the window changes a registration.\<close>

lemma on_message_emitters [simp]:
  "mainEmitter (on_message C w st event) = mainEmitter st"
  "subEmitter (on_message C w st event) = subEmitter st"
  "windowListeners (on_message C w st event) = windowListeners st"
  by (simp_all add: on_message_def logger_error_def split: sum.splits)

lemma dispatchEvent_emitters [simp]:
  "mainEmitter (dispatchEvent C w st ev) = mainEmitter st"
  "subEmitter (dispatchEvent C w st ev) = subEmitter st"
  "windowListeners (dispatchEvent C w st ev) = windowListeners st"
  by (simp_all add: dispatchEvent_def on_resize_def split: window_event.splits)

text \<open>
  Until it is disposed, the dispatcher keeps its window listeners, the main emitter its
  catch-all closure, and the sub emitter an empty catch-all stream.
\<close>

lemma step_keeps_attached:
  assumes "a \<noteq> Dispose"
  shows "windowListeners (step C st a) = windowListeners st"
    and "subscribeListeners (mainEmitter (step C st a)) = subscribeListeners (mainEmitter st)"
    and "subscribeListeners (subEmitter (step C st a)) = subscribeListeners (subEmitter st)"
  using assms
  by (cases a; simp add: emitter_on_def emitter_off_def emitter_subscribe_def
      emitter_unsubscribe_def emitter_defs)+

lemma run_keeps_attached:
  assumes "Dispose \<notin> set as"
  shows "windowListeners (run C st as) = windowListeners st
       \<and> subscribeListeners (mainEmitter (run C st as)) = subscribeListeners (mainEmitter st)
       \<and> subscribeListeners (subEmitter (run C st as)) = subscribeListeners (subEmitter st)"
  using assms
proof (induction as arbitrary: st)
  case Nil
  then show ?case by (simp add: run_def)
next
  case (Cons a as)
  then have "a \<noteq> Dispose" and rest: "Dispose \<notin> set as" by auto
  from Cons.IH [OF rest, of "step C st a"] step_keeps_attached [OF \<open>a \<noteq> Dispose\<close>, of C st]
  show ?case by (simp add: run_def)
qed

lemma parsers_lookup [simp]:
  "map_of (parsers C w) ''viewport_changed'' = Some (viewport_changed w)"
  "map_of (parsers C w) ''popup_closed'' = Some (popup_closed C)"
  "map_of (parsers C w) ''clipboard_text_received'' = Some (clipboard_text_received C)"
  by (simp_all add: parsers_def)

section \<open>The claims\<close>

text \<open>
  C1. The claim: \<^verbatim>\<open>off(name, listener)\<close> removes the first matching registration, so that
  a later emit of the name no longer calls the listener through it, and \<^verbatim>\<open>off\<close> for a
  listener that is not registered does nothing. The returned emitter binds \<^verbatim>\<open>off\<close> to
  \<^verbatim>\<open>mainEmitter.on\<close>: after \<^verbatim>\<open>on\<close> and \<^verbatim>\<open>off\<close> of the same listener an emit calls it
  twice, and \<^verbatim>\<open>off\<close> of a listener that was never registered raises the count by one.
\<close>

theorem off_registers_again:
  "calls (mainEmitter_emit
            (emitter_off (emitter_on createMiniAppsEventEmitter ''popup_closed'' 7) ''popup_closed'' 7)
            ''popup_closed'' [])
     = [(7, []), (7, [])]
   \<and> emitter_count (emitter_off createMiniAppsEventEmitter ''popup_closed'' 7)
     = emitter_count createMiniAppsEventEmitter + 1"
  by (simp add: mainEmitter_emit_def emitter_off_def emitter_on_def emitter_count_def
      emitter_defs create_defs)

text \<open>
  C2. The claim: for a message of the parent frame whose event type has no parser, the raw
  \<^verbatim>\<open>eventData\<close> is forwarded unmodified to the emitter, whatever its value, falsy values
  included. As the code has it: the event is emitted with the raw \<^verbatim>\<open>eventData\<close> as its
  payload when that value is truthy, and with no payload when it is falsy; the event
  type is one that \<^verbatim>\<open>parsers\<close> neither owns nor inherits.
\<close>

theorem unknown_event_forwards_truthy_payload:
  assumes "source event = parent w"
    and "parseMessage C (data event) = Inr message"
    and "map_of (parsers C w) (eventType message) = None"
    and "eventType message \<notin> set object_prototype_keys"
  shows "on_message C w st event =
           mainEmitter_emit st (eventType message)
             (if truthy (eventData message) then [eventData message] else [])
       \<and> emitted (on_message C w st event) =
           emitted st @ [(eventType message,
                          if truthy (eventData message) then [eventData message] else [])]"
  using assms by (simp add: on_message_def parse_event_data_def)

theorem unknown_event_forwards_truthy_payload_witness:
  "emitted (on_message example_collaborators example_window createMiniAppsEventEmitter
      \<lparr>source = 1, data = JObj [(''eventType'', JStr ''new_event''),
                               (''eventData'', JObj [(''x'', JNum (Fin 1))])]\<rparr>)
     = [(''new_event'', [JObj [(''x'', JNum (Fin 1))]])]"
  using unknown_event_forwards_truthy_payload [of
      "\<lparr>source = 1, data = JObj [(''eventType'', JStr ''new_event''),
                               (''eventData'', JObj [(''x'', JNum (Fin 1))])]\<rparr>"
      example_window example_collaborators
      "\<lparr>eventType = ''new_event'', eventData = JObj [(''x'', JNum (Fin 1))]\<rparr>"
      createMiniAppsEventEmitter]
  by (simp add: example_defs parsers_def object_prototype_keys_def create_defs)

text \<open>
  The payload 0 of an event type without a parser does not reach the emitter: the event
  is emitted without a payload, and a listener of the name is called with no argument.
\<close>

theorem falsy_payload_not_forwarded:
  "emitted (on_message example_collaborators example_window
      (emitter_on createMiniAppsEventEmitter ''new_event'' 7)
      \<lparr>source = 1, data = JObj [(''eventType'', JStr ''new_event''),
                               (''eventData'', JNum (Fin 0))]\<rparr>)
     = [(''new_event'', [])]
   \<and> calls (on_message example_collaborators example_window
      (emitter_on createMiniAppsEventEmitter ''new_event'' 7)
      \<lparr>source = 1, data = JObj [(''eventType'', JStr ''new_event''),
                               (''eventData'', JNum (Fin 0))]\<rparr>)
     = [(7, [])]"
  by (simp add: on_message_def parse_event_data_def example_defs parsers_def
      object_prototype_keys_def create_defs mainEmitter_emit_def emitter_on_def emitter_defs)

text \<open>
  An event type that names a property \<^verbatim>\<open>parsers\<close> inherits has no parser either, and
  its payload is not forwarded: the lookup finds the inherited value, calling its
  \<^verbatim>\<open>parse\<close> throws, and the error goes to the logger.
\<close>

lemma inherited_property_not_forwarded:
  "emitted (on_message example_collaborators example_window createMiniAppsEventEmitter
      \<lparr>source = 1, data = JObj [(''eventType'', JStr ''toString''),
                               (''eventData'', JObj [(''x'', JNum (Fin 1))])]\<rparr>)
     = []
   \<and> logged (on_message example_collaborators example_window createMiniAppsEventEmitter
      \<lparr>source = 1, data = JObj [(''eventType'', JStr ''toString''),
                               (''eventData'', JObj [(''x'', JNum (Fin 1))])]\<rparr>)
     = [(error_text ''toString'',
         \<lparr>eventType = ''toString'', eventData = JObj [(''x'', JNum (Fin 1))]\<rparr>,
         TypeError)]"
  by (simp add: on_message_def parse_event_data_def example_defs parsers_def
      object_prototype_keys_def create_defs logger_error_def)

text \<open>
  C3. A message whose source is not the parent frame is ignored, whatever it carries:
  the listener returns the state as it was, so nothing is emitted, no listener is
  called and nothing is logged; the same holds for the event dispatched on the window.
\<close>

theorem foreign_source_ignored:
  assumes "source event \<noteq> parent w"
  shows "on_message C w st event = st \<and> dispatchEvent C w st (Message event) = st"
  using assms by (simp add: on_message_def dispatchEvent_def)

text \<open>
  A valid \<^verbatim>\<open>popup_closed\<close> message from window 2 changes nothing, where the parent is
  window 1; the same message from the parent reaches the listener.
\<close>

theorem foreign_source_ignored_witness:
  "dispatchEvent example_collaborators example_window
      (emitter_on createMiniAppsEventEmitter ''popup_closed'' 7)
      (Message \<lparr>source = 2, data = JObj [(''eventType'', JStr ''popup_closed''),
                                        (''eventData'', JObj [(''button_id'', JStr ''ok'')])]\<rparr>)
     = emitter_on createMiniAppsEventEmitter ''popup_closed'' 7
   \<and> calls (dispatchEvent example_collaborators example_window
      (emitter_on createMiniAppsEventEmitter ''popup_closed'' 7)
      (Message \<lparr>source = 1, data = JObj [(''eventType'', JStr ''popup_closed''),
                                        (''eventData'', JObj [(''button_id'', JStr ''ok'')])]\<rparr>))
     = [(7, [JObj [(''button_id'', JStr ''ok'')]])]"
  using foreign_source_ignored [where
      event = "\<lparr>source = 2, data = JObj [(''eventType'', JStr ''popup_closed''),
                               (''eventData'', JObj [(''button_id'', JStr ''ok'')])]\<rparr>"
      and w = example_window and C = example_collaborators
      and st = "emitter_on createMiniAppsEventEmitter ''popup_closed'' 7"]
  by (simp add: example_defs dispatchEvent_def on_message_def parse_event_data_def
      popup_closed_def json_def nullish_def string_parse_def
      create_defs mainEmitter_emit_def emitter_on_def emitter_defs)

text \<open>
  C4. A message of the parent frame whose event type has a parser that rejects the
  payload: nothing is emitted and no listener is called; \<^verbatim>\<open>logger.error\<close> is called once,
  with a text that holds the event type, with the decoded message and with the cause;
  the listener returns (every throw is caught), and the next message, whatever it is,
  leads to the emissions and calls it would have led to without the rejected one.
\<close>

theorem invalid_payload_logged_not_emitted:
  assumes "source event = parent w"
    and "parseMessage C (data event) = Inr message"
    and "map_of (parsers C w) (eventType message) = Some p"
    and "p (eventData message) = Inl cause"
  shows "on_message C w st event =
           st\<lparr>logged := logged st @ [(error_text (eventType message), message, cause)]\<rparr>
       \<and> emitted (on_message C w st event) = emitted st
       \<and> calls (on_message C w st event) = calls st
       \<and> emitted (on_message C w' (on_message C w st event) event') =
           emitted (on_message C w' st event')
       \<and> calls (on_message C w' (on_message C w st event) event') =
           calls (on_message C w' st event')"
proof -
  have eq: "on_message C w st event =
      st\<lparr>logged := logged st @ [(error_text (eventType message), message, cause)]\<rparr>"
    using assms by (simp add: on_message_def parse_event_data_def logger_error_def)
  show ?thesis
    by (simp add: eq on_message_logged_emitted on_message_logged_calls)
qed

theorem invalid_payload_logged_not_emitted_witness:
  "on_message example_collaborators example_window
      (emitter_on createMiniAppsEventEmitter ''viewport_changed'' 7)
      \<lparr>source = 1, data = JObj [(''eventType'', JStr ''viewport_changed''),
                               (''eventData'', JObj [(''height'', JStr ''tall'')])]\<rparr>
     = (emitter_on createMiniAppsEventEmitter ''viewport_changed'' 7)
        \<lparr>logged := [(error_text ''viewport_changed'',
                      \<lparr>eventType = ''viewport_changed'',
                       eventData = JObj [(''height'', JStr ''tall'')]\<rparr>,
                      ValidationError)]\<rparr>"
  using invalid_payload_logged_not_emitted [where
      event = "\<lparr>source = 1, data = JObj [(''eventType'', JStr ''viewport_changed''),
                               (''eventData'', JObj [(''height'', JStr ''tall'')])]\<rparr>"
      and w = example_window and C = example_collaborators
      and message = "\<lparr>eventType = ''viewport_changed'',
                       eventData = JObj [(''height'', JStr ''tall'')]\<rparr>"
      and p = "viewport_changed example_window" and cause = ValidationError
      and st = "emitter_on createMiniAppsEventEmitter ''viewport_changed'' 7"]
  by (simp add: example_defs viewport_changed_def json_def number_parse_def
      create_defs emitter_on_def emitter_defs)

text \<open>
  C5. The claim: \<^verbatim>\<open>count\<close> is the number of the registrations made through the emitter,
  0 for a fresh emitter, and each \<^verbatim>\<open>on\<close> or \<^verbatim>\<open>subscribe\<close> adds one. The count is the sum
  of the counts of both emitters, and the main emitter holds the catch-all closure of
  the module from its creation: a fresh emitter counts 1 with no registration made.
\<close>

theorem fresh_count_is_one:
  "emitter_count createMiniAppsEventEmitter = 1
   \<and> user_registrations createMiniAppsEventEmitter = 0"
  by (simp add: emitter_count_def user_registrations_def emitter_defs create_defs)

text \<open>
  C5 as the code has it: until the emitter is disposed, \<^verbatim>\<open>count\<close> is the number of the
  registrations made through it plus one, and each \<^verbatim>\<open>on\<close> or \<^verbatim>\<open>subscribe\<close> adds exactly
  one.
\<close>

theorem count_is_registrations_plus_bridge:
  assumes "Dispose \<notin> set as"
  shows "emitter_count (run C createMiniAppsEventEmitter as) =
           user_registrations (run C createMiniAppsEventEmitter as) + 1
       \<and> emitter_count (emitter_on st name l) = emitter_count st + 1
       \<and> emitter_count (emitter_subscribe st l) = emitter_count st + 1"
proof -
  from run_keeps_attached [OF assms, of C createMiniAppsEventEmitter]
  have "subscribeListeners (mainEmitter (run C createMiniAppsEventEmitter as)) = [Bridge]"
    and "subscribeListeners (subEmitter (run C createMiniAppsEventEmitter as)) = []"
    by (simp_all add: create_defs emitter_defs)
  then show ?thesis
    by (simp add: emitter_count_def user_registrations_def EventEmitter_count_def
        emitter_on_def emitter_subscribe_def EventEmitter_on_def)
qed

theorem count_is_registrations_plus_bridge_witness:
  "emitter_count (run example_collaborators createMiniAppsEventEmitter
       [On ''popup_closed'' 7, Subscribe 8, On ''popup_closed'' 7]) = 4
   \<and> user_registrations (run example_collaborators createMiniAppsEventEmitter
       [On ''popup_closed'' 7, Subscribe 8, On ''popup_closed'' 7]) = 3"
  using count_is_registrations_plus_bridge [where
      as = "[On ''popup_closed'' 7, Subscribe 8, On ''popup_closed'' 7]"
      and C = example_collaborators and st = createMiniAppsEventEmitter
      and name = "''popup_closed''" and l = 7]
  by (simp add: run_def emitter_count_def user_registrations_def emitter_on_def
      emitter_subscribe_def emitter_defs create_defs)



text \<open>
  C7. A \<^verbatim>\<open>popup_closed\<close> message of the parent frame whose \<^verbatim>\<open>eventData\<close> is null or
  missing: the data is replaced by an empty object before the fields are read, decoding
  succeeds with \<^verbatim>\<open>{button_id: undefined}\<close>, and that payload is emitted. A \<^verbatim>\<open>button_id\<close>
  that is null or undefined in an object decodes to undefined as well.
\<close>

theorem popup_closed_missing_data:
  assumes "source event = parent w"
    and "parseMessage C (data event) = Inr \<lparr>eventType = ''popup_closed'', eventData = d\<rparr>"
    and "nullish d"
  shows "popup_closed C d = Inr (JObj [(''button_id'', JUndefined)])
       \<and> emitted (on_message C w st event) =
           emitted st @ [(''popup_closed'', [JObj [(''button_id'', JUndefined)]])]
       \<and> (nullish (property fs ''button_id'') \<longrightarrow>
            popup_closed C (JObj fs) = Inr (JObj [(''button_id'', JUndefined)]))"
proof -
  have p: "popup_closed C d = Inr (JObj [(''button_id'', JUndefined)])"
    using assms(3) by (simp add: popup_closed_def json_def property_def nullish_def)
  have q: "nullish (property fs ''button_id'') \<longrightarrow>
            popup_closed C (JObj fs) = Inr (JObj [(''button_id'', JUndefined)])"
    by (simp add: popup_closed_def json_def nullish_def)
  show ?thesis
    using assms(1,2) q by (simp add: p on_message_def parse_event_data_def)
qed

theorem popup_closed_missing_data_witness:
  "emitted (on_message example_collaborators example_window createMiniAppsEventEmitter
      \<lparr>source = 1, data = JObj [(''eventType'', JStr ''popup_closed''),
                               (''eventData'', JNull)]\<rparr>)
     = [(''popup_closed'', [JObj [(''button_id'', JUndefined)]])]
   \<and> popup_closed example_collaborators JNull = Inr (JObj [(''button_id'', JUndefined)])
   \<and> popup_closed example_collaborators (JObj [(''button_id'', JNull)])
     = Inr (JObj [(''button_id'', JUndefined)])"
  using popup_closed_missing_data [where
      event = "\<lparr>source = 1, data = JObj [(''eventType'', JStr ''popup_closed''),
                               (''eventData'', JNull)]\<rparr>"
      and w = example_window and C = example_collaborators and d = JNull
      and fs = "[(''button_id'', JNull)]" and st = createMiniAppsEventEmitter]
  by (simp add: example_defs nullish_def create_defs)

text \<open>
  C8. Until the dispatcher is disposed, a resize event of the window, with no message
  involved, makes one emission of \<^verbatim>\<open>viewport_changed\<close> with the payload
  \<^verbatim>\<open>{width: window.innerWidth, height: window.innerHeight, is_state_stable: true,
  is_expanded: true}\<close>; at 800 by 600 the payload is
  \<^verbatim>\<open>{width: 800, height: 600, is_state_stable: true, is_expanded: true}\<close>.
\<close>

theorem resize_synthesizes_viewport_changed:
  assumes "Dispose \<notin> set as"
  shows "emitted (dispatchEvent C w (run C createMiniAppsEventEmitter as) Resize) =
           emitted (run C createMiniAppsEventEmitter as)
           @ [(''viewport_changed'',
               [JObj [(''width'', JNum (Fin (innerWidth w))),
                      (''height'', JNum (Fin (innerHeight w))),
                      (''is_state_stable'', JBool True),
                      (''is_expanded'', JBool True)]])]"
proof -
  from run_keeps_attached [OF assms, of C createMiniAppsEventEmitter]
  have "(''resize'', ResizeHandler) \<in> windowListeners (run C createMiniAppsEventEmitter as)"
    by (simp add: create_defs)
  then show ?thesis
    by (simp add: dispatchEvent_def on_resize_def)
qed

theorem resize_synthesizes_viewport_changed_witness:
  "emitted (dispatchEvent example_collaborators
       \<lparr>innerWidth = 800, innerHeight = 600, parent = 1\<rparr>
       (run example_collaborators createMiniAppsEventEmitter [On ''viewport_changed'' 7]) Resize)
     = [(''viewport_changed'',
         [JObj [(''width'', JNum (Fin 800)), (''height'', JNum (Fin 600)),
                (''is_state_stable'', JBool True), (''is_expanded'', JBool True)]])]
   \<and> calls (dispatchEvent example_collaborators
       \<lparr>innerWidth = 800, innerHeight = 600, parent = 1\<rparr>
       (run example_collaborators createMiniAppsEventEmitter [On ''viewport_changed'' 7]) Resize)
     = [(7, [JObj [(''width'', JNum (Fin 800)), (''height'', JNum (Fin 600)),
                   (''is_state_stable'', JBool True), (''is_expanded'', JBool True)]])]"
  using resize_synthesizes_viewport_changed [where
      as = "[On ''viewport_changed'' 7]" and C = example_collaborators
      and w = "\<lparr>innerWidth = 800, innerHeight = 600, parent = 1\<rparr>"]
  by (simp add: run_def dispatchEvent_def on_resize_def mainEmitter_emit_def
      emitter_on_def emitter_defs create_defs)

text \<open>
  C9. Disposing twice is disposing once: the second call returns the state the first
  one left, so the count of the emitter (0 after the first call) and the listeners on
  the window (none of the module's after the first call) stay as they are. The dispose
  function is total: it does not throw.
\<close>

theorem dispose_twice:
  "dispose (dispose st) = dispose st
   \<and> emitter_count (dispose (dispose st)) = emitter_count (dispose st)
   \<and> windowListeners (dispose (dispose st)) = windowListeners (dispose st)
   \<and> emitter_count (dispose st) = 0
   \<and> windowListeners (dispose createMiniAppsEventEmitter) = {}"
  by (auto simp add: dispose_def Let_def cleanupEventHandlers_def offWindow_def
      emitter_count_def emitter_defs create_defs)

text \<open>
  C10. The claim: the decoder of \<^verbatim>\<open>clipboard_text_received\<close> keeps a \<^verbatim>\<open>data\<close> field that
  is null, decodes an undefined or missing one to undefined, and fails on any other
  value that is not a string, so that the event is dropped. The closure of the field
  only sets null apart; every other value goes to \<^verbatim>\<open>string().optional()\<close>. With a
  \<^verbatim>\<open>string()\<close> that coerces numbers, the number 5 decodes to the string \<^verbatim>\<open>"5"\<close> and the
  event is emitted.
\<close>

theorem clipboard_number_is_coerced:
  "clipboard_text_received coercing_collaborators
      (JObj [(''req_id'', JStr ''r1''), (''data'', JNum (Fin 5))])
     = Inr (JObj [(''req_id'', JStr ''r1''), (''data'', JStr ''5'')])
   \<and> emitted (on_message coercing_collaborators example_window createMiniAppsEventEmitter
      \<lparr>source = 1, data = JObj [(''eventType'', JStr ''clipboard_text_received''),
           (''eventData'', JObj [(''req_id'', JStr ''r1''), (''data'', JNum (Fin 5))])]\<rparr>)
     = [(''clipboard_text_received'',
         [JObj [(''req_id'', JStr ''r1''), (''data'', JStr ''5'')]])]"
  by (simp add: on_message_def parse_event_data_def clipboard_text_received_def json_def
      string_parse_def optional_def nullish_def coercing_collaborators_def number_coercion_def
      decimal.simps example_window_def structured_message_def property_def create_defs)

text \<open>
  C10 as the code has it, for a message of the parent frame with a string \<^verbatim>\<open>req_id\<close>:
  a \<^verbatim>\<open>data\<close> field that is null stays null, one that is undefined or missing decodes to
  undefined, a string stays that string, and any other value decodes to the string that
  \<^verbatim>\<open>string()\<close> coerces it to; decoding fails, and nothing is emitted, exactly when
  \<^verbatim>\<open>string()\<close> cannot coerce the value.
\<close>

theorem clipboard_data_decided_by_string:
  assumes "source event = parent w"
    and "parseMessage C (data event) =
           Inr \<lparr>eventType = ''clipboard_text_received'', eventData = JObj fs\<rparr>"
    and "property fs ''req_id'' = JStr r"
  shows "clipboard_text_received C (JObj fs) =
           (case property fs ''data'' of
              JNull \<Rightarrow> Inr (JObj [(''req_id'', JStr r), (''data'', JNull)])
            | JUndefined \<Rightarrow> Inr (JObj [(''req_id'', JStr r), (''data'', JUndefined)])
            | JStr s \<Rightarrow> Inr (JObj [(''req_id'', JStr r), (''data'', JStr s)])
            | _ \<Rightarrow> (case coerce_string C (property fs ''data'') of
                      None \<Rightarrow> Inl ValidationError
                    | Some s \<Rightarrow> Inr (JObj [(''req_id'', JStr r), (''data'', JStr s)])))
       \<and> emitted (on_message C w st event) =
           (case clipboard_text_received C (JObj fs) of
              Inl cause \<Rightarrow> emitted st
            | Inr payload \<Rightarrow> emitted st @ [(''clipboard_text_received'', [payload])])"
proof -
  have p: "clipboard_text_received C (JObj fs) =
           (case property fs ''data'' of
              JNull \<Rightarrow> Inr (JObj [(''req_id'', JStr r), (''data'', JNull)])
            | JUndefined \<Rightarrow> Inr (JObj [(''req_id'', JStr r), (''data'', JUndefined)])
            | JStr s \<Rightarrow> Inr (JObj [(''req_id'', JStr r), (''data'', JStr s)])
            | _ \<Rightarrow> (case coerce_string C (property fs ''data'') of
                      None \<Rightarrow> Inl ValidationError
                    | Some s \<Rightarrow> Inr (JObj [(''req_id'', JStr r), (''data'', JStr s)])))"
    using assms(3)
    by (simp add: clipboard_text_received_def json_def string_parse_def optional_def nullish_def
        split: jsval.splits option.splits)
  have q: "emitted (on_message C w st event) =
           (case clipboard_text_received C (JObj fs) of
              Inl cause \<Rightarrow> emitted st
            | Inr payload \<Rightarrow> emitted st @ [(''clipboard_text_received'', [payload])])"
    using assms(1,2)
    by (simp add: p on_message_def parse_event_data_def logger_error_def
        split: jsval.splits option.splits)
  from p q show ?thesis by (rule conjI)
qed

theorem clipboard_data_decided_by_string_witness:
  "clipboard_text_received example_collaborators
      (JObj [(''req_id'', JStr ''r1''), (''data'', JNull)])
     = Inr (JObj [(''req_id'', JStr ''r1''), (''data'', JNull)])
   \<and> clipboard_text_received example_collaborators (JObj [(''req_id'', JStr ''r1'')])
     = Inr (JObj [(''req_id'', JStr ''r1''), (''data'', JUndefined)])
   \<and> clipboard_text_received example_collaborators
      (JObj [(''req_id'', JStr ''r1''), (''data'', JNum (Fin 5))])
     = Inl ValidationError
   \<and> emitted (on_message example_collaborators example_window createMiniAppsEventEmitter
      \<lparr>source = 1, data = JObj [(''eventType'', JStr ''clipboard_text_received''),
           (''eventData'', JObj [(''req_id'', JStr ''r1''), (''data'', JNum (Fin 5))])]\<rparr>)
     = []"
  using clipboard_data_decided_by_string [where
      event = "\<lparr>source = 1, data = JObj [(''eventType'', JStr ''clipboard_text_received''),
           (''eventData'', JObj [(''req_id'', JStr ''r1''), (''data'', JNull)])]\<rparr>"
      and w = example_window and C = example_collaborators
      and fs = "[(''req_id'', JStr ''r1''), (''data'', JNull)]" and r = "''r1''"
      and st = createMiniAppsEventEmitter]
    clipboard_data_decided_by_string [where
      event = "\<lparr>source = 1, data = JObj [(''eventType'', JStr ''clipboard_text_received''),
           (''eventData'', JObj [(''req_id'', JStr ''r1'')])]\<rparr>"
      and w = example_window and C = example_collaborators
      and fs = "[(''req_id'', JStr ''r1'')]" and r = "''r1''"
      and st = createMiniAppsEventEmitter]
    clipboard_data_decided_by_string [where
      event = "\<lparr>source = 1, data = JObj [(''eventType'', JStr ''clipboard_text_received''),
           (''eventData'', JObj [(''req_id'', JStr ''r1''), (''data'', JNum (Fin 5))])]\<rparr>"
      and w = example_window and C = example_collaborators
      and fs = "[(''req_id'', JStr ''r1''), (''data'', JNum (Fin 5))]" and r = "''r1''"
      and st = createMiniAppsEventEmitter]
  by (simp add: example_defs create_defs)

end
